theory Spec2Isabelle
  imports Complex_Main "HOL-Library.AList"
begin

section \<open>The MVT PMTiles provider of pygeoapi\<close>

text \<open>
  A shallow embedding of \<^verbatim>\<open>pygeoapi/provider/mvt_pmtiles.py\<close>: the constructor of
  \<^verbatim>\<open>MVTPmtilesProvider\<close> and its two render methods \<^verbatim>\<open>get_html_metadata\<close> and
  \<^verbatim>\<open>get_vendor_metadata\<close>. Exceptions are values of a sum type, the logger is a list
  of entries returned with the result, Python dictionaries are association lists that
  keep insertion order.
\<close>

subsection \<open>Values, errors, log entries\<close>

datatype json =
    JNone
  | JBool bool
  | JInt int
  | JFloat real
  | JStr string
  | JList "json list"
  | JDict "(string \<times> json) list"

type_synonym dict = "(string \<times> json) list"

text \<open>
  The exceptions the module can meet: the provider's connection error (with its message),
  the lookup failure of \<^verbatim>\<open>d[key]\<close> on a missing key, and any other exception raised by a
  collaborator (the HTTP client, the descriptor fetch).
\<close>

datatype error =
    ProviderConnectionError string
  | KeyError string
  | OtherException string

datatype level = DEBUG | WARNING | ERROR

type_synonym log = "(level \<times> string) list"

subsection \<open>Locations and the provider object\<close>

text \<open>
  \<^verbatim>\<open>_service_url\<close> and \<^verbatim>\<open>_service_metadata_url\<close> hold a \<^verbatim>\<open>str\<close> in the URL branch of the
  constructor and a \<^verbatim>\<open>pathlib.Path\<close> in the local branch. A path is kept by its text.
\<close>

datatype location = UrlStr string | FsPath string

fun location_str :: "location \<Rightarrow> string" where
  "location_str (UrlStr s) = s"
| "location_str (FsPath s) = s"

record provider =
  data :: string
  service_url :: location
  service_metadata_url :: location

record parsed_url =
  scheme :: string
  netloc :: string

subsection \<open>The tile-json model object\<close>

text \<open>
  Modelled from the spec: the class \<^verbatim>\<open>MVTTilesJson\<close> of \<^verbatim>\<open>pygeoapi.models.provider.mvt\<close> is
  not part of the module. Its fields are the nine attributes the module assigns, which
  are the fields section 3 of the specification lists for the descriptor and its rendered
  form; \<^verbatim>\<open>.dict()\<close> returns them under their names. The value a field holds in a fresh
  object (its type default) is not given, so a fresh object is a parameter of the
  environment below.
\<close>

record MVTTilesJson =
  tj_name :: json
  tj_description :: json
  tj_attribution :: json
  tj_bounds :: json
  tj_center :: json
  tj_minzoom :: json
  tj_maxzoom :: json
  tj_tiles :: json
  tj_vector_layers :: json

definition dict_of :: "MVTTilesJson \<Rightarrow> dict" where
  "dict_of c =
     [(''name'', tj_name c),
      (''description'', tj_description c),
      (''attribution'', tj_attribution c),
      (''bounds'', tj_bounds c),
      (''center'', tj_center c),
      (''minzoom'', tj_minzoom c),
      (''maxzoom'', tj_maxzoom c),
      (''tiles'', tj_tiles c),
      (''vector_layers'', tj_vector_layers c)]"

subsection \<open>The collaborators\<close>

text \<open>
  What the module calls and does not define: \<^verbatim>\<open>is_url\<close> and \<^verbatim>\<open>url_join\<close> of
  \<^verbatim>\<open>pygeoapi.util\<close>, \<^verbatim>\<open>urlparse\<close>, \<^verbatim>\<open>requests.head\<close> (its status code, or the exception it
  raises), \<^verbatim>\<open>pathlib\<close> (the text of \<^verbatim>\<open>Path(s)\<close>, \<^verbatim>\<open>exists\<close>, \<^verbatim>\<open>joinpath\<close>, \<^verbatim>\<open>name\<close>), and
  the inherited methods \<^verbatim>\<open>get_layer\<close> and \<^verbatim>\<open>get_metadata_from_URL\<close>. They are parameters:
  every theorem below holds for each choice of them. The network and the file system
  may answer differently from one call to the next, which is a different environment
  at each call.
\<close>

record env =
  is_url :: "string \<Rightarrow> bool"
  urlparse :: "string \<Rightarrow> parsed_url"
  url_join :: "string \<Rightarrow> string \<Rightarrow> string"
  get_layer :: "provider \<Rightarrow> string"
  requests_head :: "string \<Rightarrow> error + int"
  path_str :: "string \<Rightarrow> string"
  path_exists :: "string \<Rightarrow> bool"
  path_joinpath :: "string \<Rightarrow> string \<Rightarrow> string"
  path_name :: "string \<Rightarrow> string"
  get_metadata_from_URL :: "location \<Rightarrow> error + dict"
  MVTTilesJson_new :: MVTTilesJson

subsection \<open>String helpers\<close>

fun starts_with :: "string \<Rightarrow> string \<Rightarrow> bool" where
  "starts_with [] s = True"
| "starts_with (p # ps) [] = False"
| "starts_with (p # ps) (c # cs) = (p = c \<and> starts_with ps cs)"

text \<open>\<^verbatim>\<open>s.split(sep)[0]\<close> for a non-empty \<^verbatim>\<open>sep\<close>: the text before its first occurrence.\<close>

fun split_head :: "string \<Rightarrow> string \<Rightarrow> string" where
  "split_head sep [] = []"
| "split_head sep (c # cs) =
     (if starts_with sep (c # cs) then [] else c # split_head sep cs)"

subsection \<open>Construction\<close>

text \<open>
  \<^verbatim>\<open>__init__\<close>, after \<^verbatim>\<open>super().__init__\<close> has returned the object \<open>self\<close>. The result is the
  log written and either the exception raised or the finished object. The properties
  \<^verbatim>\<open>service_url\<close> and \<^verbatim>\<open>service_metadata_url\<close> read the underscore attributes.
\<close>

definition init_url :: "env \<Rightarrow> provider \<Rightarrow> log \<times> (error + provider)" where
  "init_url e self =
     (let url = urlparse e (data self);
          baseurl = scheme url @ ''://'' @ netloc url;
          layer = ''/'' @ get_layer e self;
          log1 = [(DEBUG, ''Extracting layer name from URL''),
                  (DEBUG, ''Layer: '' @ layer)];
          tilepath = layer @ ''/tiles'';
          servicepath = tilepath @
            ''/{tileMatrixSetId}/{tileMatrix}/{tileRow}/{tileCol}?f=mvt'';
          self1 = self\<lparr>service_url := UrlStr (url_join e baseurl servicepath)\<rparr>;
          self2 = self1\<lparr>service_metadata_url := UrlStr (url_join e
                    (split_head ''{tileMatrix}/{tileRow}/{tileCol}''
                       (location_str (service_url self1)))
                    ''metadata'')\<rparr>;
          metadata_path = baseurl @ ''/'' @ layer @ ''.json''
      in case requests_head e metadata_path of
           Inl ex \<Rightarrow> (log1, Inl ex)
         | Inr status_code \<Rightarrow>
             (let msg = ''Service metadata does not exist: '' @ metadata_path;
                  log2 = (if status_code \<noteq> 200
                          then log1 @ [(ERROR, msg), (WARNING, msg)] else log1)
              in (log2, Inr (self2\<lparr>service_metadata_url := UrlStr metadata_path\<rparr>))))"

definition init_local :: "env \<Rightarrow> provider \<Rightarrow> log \<times> (error + provider)" where
  "init_local e self =
     (let data_path = path_str e (data self)
      in if \<not> path_exists e data_path then
           (let msg = ''Service does not exist: '' @ data self
            in ([(ERROR, msg)], Inl (ProviderConnectionError msg)))
         else
           (let self1 = self\<lparr>service_url := FsPath data_path\<rparr>;
                metadata_path = path_joinpath e data_path ''metadata'';
                msg = ''Service metadata does not exist: '' @ path_name e metadata_path;
                log1 = (if \<not> path_exists e metadata_path
                        then [(ERROR, msg), (WARNING, msg)] else [])
            in (log1, Inr (self1\<lparr>service_metadata_url := FsPath metadata_path\<rparr>))))"

definition MVTPmtilesProvider_init :: "env \<Rightarrow> provider \<Rightarrow> log \<times> (error + provider)" where
  "MVTPmtilesProvider_init e self =
     (if is_url e (data self) then init_url e self else init_local e self)"

subsection \<open>Reshaping a descriptor\<close>

text \<open>
  The statements from \<^verbatim>\<open>content = MVTTilesJson()\<close> to the assignment of
  \<^verbatim>\<open>content.vector_layers\<close>, which the two render methods share word for word: an optional
  key is copied when the document has it, \<^verbatim>\<open>tiles\<close> is the one-element list of the tile
  URL, and \<^verbatim>\<open>metadata_json_content["vector_layers"]\<close> raises on a document without the key.
\<close>

definition reshape :: "env \<Rightarrow> dict \<Rightarrow> string \<Rightarrow> error + MVTTilesJson" where
  "reshape e metadata_json_content tile_url =
     (let content = MVTTilesJson_new e;
          content = (case map_of metadata_json_content ''name'' of
                       Some v \<Rightarrow> content\<lparr>tj_name := v\<rparr> | None \<Rightarrow> content);
          content = (case map_of metadata_json_content ''description'' of
                       Some v \<Rightarrow> content\<lparr>tj_description := v\<rparr> | None \<Rightarrow> content);
          content = (case map_of metadata_json_content ''attribution'' of
                       Some v \<Rightarrow> content\<lparr>tj_attribution := v\<rparr> | None \<Rightarrow> content);
          content = (case map_of metadata_json_content ''bounds'' of
                       Some v \<Rightarrow> content\<lparr>tj_bounds := v\<rparr> | None \<Rightarrow> content);
          content = (case map_of metadata_json_content ''center'' of
                       Some v \<Rightarrow> content\<lparr>tj_center := v\<rparr> | None \<Rightarrow> content);
          content = (case map_of metadata_json_content ''minzoom'' of
                       Some v \<Rightarrow> content\<lparr>tj_minzoom := v\<rparr> | None \<Rightarrow> content);
          content = (case map_of metadata_json_content ''maxzoom'' of
                       Some v \<Rightarrow> content\<lparr>tj_maxzoom := v\<rparr> | None \<Rightarrow> content);
          content = content\<lparr>tj_tiles := JList [JStr tile_url]\<rparr>
      in case map_of metadata_json_content ''vector_layers'' of
           None \<Rightarrow> Inl (KeyError ''vector_layers'')
         | Some v \<Rightarrow> Inr (content\<lparr>tj_vector_layers := v\<rparr>))"

subsection \<open>The two render methods\<close>

text \<open>
  The arguments \<open>layer\<close>, \<open>descr\<close> (the source's \<^verbatim>\<open>description\<close>) and \<open>keywords\<close>, and
  \<open>title\<close> in the vendor view, are of any type: the methods take them and never read
  them (nor the extra keyword arguments). Neither method assigns to an attribute of the
  object. The source's local variable \<^verbatim>\<open>service_url\<close> is \<open>tile_url\<close> here, the name
  \<open>service_url\<close> being the attribute's. The \<^verbatim>\<open>try\<close> block spans the fetch and the reshaping,
  and its \<^verbatim>\<open>except\<close> clause matches the connection error only.
\<close>

definition get_html_metadata ::
  "env \<Rightarrow> provider \<Rightarrow> string \<Rightarrow> string \<Rightarrow> 'l \<Rightarrow> string \<Rightarrow> json \<Rightarrow> 'd \<Rightarrow> 'k
     \<Rightarrow> error + dict" where
  "get_html_metadata e self dataset server_url layer tileset title descr keywords =
     (let tile_url = url_join e server_url
            (''collections/'' @ dataset @ ''/tiles/'' @ tileset @
             ''/{tileMatrix}/{tileRow}/{tileCol}?f=mvt'');
          metadata_url = url_join e server_url
            (''collections/'' @ dataset @ ''/tiles/'' @ tileset @ ''/metadata'');
          metadata = [];
          metadata = AList.update ''id'' (JStr dataset) metadata;
          metadata = AList.update ''title'' title metadata;
          metadata = AList.update ''tileset'' (JStr tileset) metadata;
          metadata = AList.update ''collections_path'' (JStr tile_url) metadata;
          metadata = AList.update ''json_url'' (JStr (metadata_url @ ''?f=json'')) metadata
      in case get_metadata_from_URL e (service_metadata_url self) of
           Inl (ProviderConnectionError m) \<Rightarrow> Inr metadata
         | Inl ex \<Rightarrow> Inl ex
         | Inr metadata_json_content \<Rightarrow>
             (case reshape e metadata_json_content tile_url of
                Inl (ProviderConnectionError m) \<Rightarrow> Inr metadata
              | Inl ex \<Rightarrow> Inl ex
              | Inr content \<Rightarrow>
                  (let metadata = AList.update ''metadata'' (JDict (dict_of content)) metadata;
                       metadata = AList.update ''tilejson_url''
                                    (JStr (metadata_url @ ''?f=tilejson'')) metadata
                   in Inr metadata)))"

definition get_vendor_metadata ::
  "env \<Rightarrow> provider \<Rightarrow> string \<Rightarrow> string \<Rightarrow> 'l \<Rightarrow> string \<Rightarrow> 't \<Rightarrow> 'd \<Rightarrow> 'k
     \<Rightarrow> log \<times> (error + dict)" where
  "get_vendor_metadata e self dataset server_url layer tileset title descr keywords =
     (let reraise =
            (let msg = ''No tiles metadata json available: '' @
                         location_str (service_metadata_url self)
             in ([(ERROR, msg)], Inl (ProviderConnectionError msg)))
      in case get_metadata_from_URL e (service_metadata_url self) of
           Inl (ProviderConnectionError m) \<Rightarrow> reraise
         | Inl ex \<Rightarrow> ([], Inl ex)
         | Inr metadata_json_content \<Rightarrow>
             (let tile_url = url_join e server_url
                    (''collections/'' @ dataset @ ''/tiles/'' @ tileset @
                     ''/{z}/{x}/{y}?f=mvt'')
              in case reshape e metadata_json_content tile_url of
                   Inl (ProviderConnectionError m) \<Rightarrow> reraise
                 | Inl ex \<Rightarrow> ([], Inl ex)
                 | Inr content \<Rightarrow> ([], Inr (dict_of content))))"

subsection \<open>The render methods with the object and the world passed through\<close>

text \<open>
  For what a call leaves behind, the two methods again, statement by statement, over an
  explicit state: the object and the world outside (network, file system, and whatever
  the base class keeps). The inherited \<^verbatim>\<open>self.get_metadata_from_URL\<close> is a parameter that
  receives the whole state and returns its answer with the state it leaves, so it is free
  to change the object and the world. The methods read \<^verbatim>\<open>self.service_metadata_url\<close> for the
  argument of the fetch before the call, and the vendor view reads it once more in its
  \<^verbatim>\<open>except\<close> clause, after the call. Neither method has an assignment to an attribute, so
  the state a method returns is the state the fetch left.
\<close>

type_synonym 'w state = "provider \<times> 'w"

type_synonym 'w fetch = "'w state \<Rightarrow> location \<Rightarrow> (error + dict) \<times> 'w state"

definition get_html_metadata_st ::
  "'w fetch \<Rightarrow> env \<Rightarrow> 'w state \<Rightarrow> string \<Rightarrow> string \<Rightarrow> 'l \<Rightarrow> string \<Rightarrow> json \<Rightarrow> 'd \<Rightarrow> 'k
     \<Rightarrow> (error + dict) \<times> 'w state" where
  "get_html_metadata_st fetch e s dataset server_url layer tileset title descr keywords =
     (let tile_url = url_join e server_url
            (''collections/'' @ dataset @ ''/tiles/'' @ tileset @
             ''/{tileMatrix}/{tileRow}/{tileCol}?f=mvt'');
          metadata_url = url_join e server_url
            (''collections/'' @ dataset @ ''/tiles/'' @ tileset @ ''/metadata'');
          metadata = [];
          metadata = AList.update ''id'' (JStr dataset) metadata;
          metadata = AList.update ''title'' title metadata;
          metadata = AList.update ''tileset'' (JStr tileset) metadata;
          metadata = AList.update ''collections_path'' (JStr tile_url) metadata;
          metadata = AList.update ''json_url'' (JStr (metadata_url @ ''?f=json'')) metadata
      in case fetch s (service_metadata_url (fst s)) of
           (answer, s1) \<Rightarrow>
             ((case answer of
                 Inl (ProviderConnectionError m) \<Rightarrow> Inr metadata
               | Inl ex \<Rightarrow> Inl ex
               | Inr metadata_json_content \<Rightarrow>
                   (case reshape e metadata_json_content tile_url of
                      Inl (ProviderConnectionError m) \<Rightarrow> Inr metadata
                    | Inl ex \<Rightarrow> Inl ex
                    | Inr content \<Rightarrow>
                        (let metadata = AList.update ''metadata''
                                          (JDict (dict_of content)) metadata;
                             metadata = AList.update ''tilejson_url''
                                          (JStr (metadata_url @ ''?f=tilejson'')) metadata
                         in Inr metadata))),
              s1))"

definition get_vendor_metadata_st ::
  "'w fetch \<Rightarrow> env \<Rightarrow> 'w state \<Rightarrow> string \<Rightarrow> string \<Rightarrow> 'l \<Rightarrow> string \<Rightarrow> 't \<Rightarrow> 'd \<Rightarrow> 'k
     \<Rightarrow> (log \<times> (error + dict)) \<times> 'w state" where
  "get_vendor_metadata_st fetch e s dataset server_url layer tileset title descr keywords =
     (case fetch s (service_metadata_url (fst s)) of
        (answer, s1) \<Rightarrow>
          (let reraise =
                 (let msg = ''No tiles metadata json available: '' @
                              location_str (service_metadata_url (fst s1))
                  in ([(ERROR, msg)], Inl (ProviderConnectionError msg)))
           in ((case answer of
                  Inl (ProviderConnectionError m) \<Rightarrow> reraise
                | Inl ex \<Rightarrow> ([], Inl ex)
                | Inr metadata_json_content \<Rightarrow>
                    (let tile_url = url_join e server_url
                           (''collections/'' @ dataset @ ''/tiles/'' @ tileset @
                            ''/{z}/{x}/{y}?f=mvt'')
                     in case reshape e metadata_json_content tile_url of
                          Inl (ProviderConnectionError m) \<Rightarrow> reraise
                        | Inl ex \<Rightarrow> ([], Inl ex)
                        | Inr content \<Rightarrow> ([], Inr (dict_of content)))),
               s1)))"

subsection \<open>Sequences of render calls\<close>

text \<open>
  A call of one of the two methods with its arguments, and what it gave. A sequence of
  calls runs one after the other, each from the state the one before left.
\<close>

datatype call =
    HtmlCall string string json string json json json
  | VendorCall string string json string json json json

datatype outcome =
    HtmlOutcome "error + dict"
  | VendorOutcome "log \<times> (error + dict)"


fun perform :: "'w fetch \<Rightarrow> env \<Rightarrow> 'w state \<Rightarrow> call \<Rightarrow> outcome \<times> 'w state" where
  "perform fetch e s (HtmlCall dataset server_url layer tileset title descr keywords) =
     (case get_html_metadata_st fetch e s dataset server_url layer tileset title descr keywords
      of (r, s1) \<Rightarrow> (HtmlOutcome r, s1))"
| "perform fetch e s (VendorCall dataset server_url layer tileset title descr keywords) =
     (case get_vendor_metadata_st fetch e s dataset server_url layer tileset title descr keywords
      of (r, s1) \<Rightarrow> (VendorOutcome r, s1))"

fun run_calls :: "'w fetch \<Rightarrow> env \<Rightarrow> 'w state \<Rightarrow> call list \<Rightarrow> outcome list \<times> 'w state" where
  "run_calls fetch e s [] = ([], s)"
| "run_calls fetch e s (c # cs) =
     (case perform fetch e s c of
        (out, s1) \<Rightarrow>
          (case run_calls fetch e s1 cs of (outs, s2) \<Rightarrow> (out # outs, s2)))"




subsection \<open>The contract of the descriptor fetch\<close>

fun is_connection_error :: "error + 'a \<Rightarrow> bool" where
  "is_connection_error (Inl (ProviderConnectionError m)) = True"
| "is_connection_error r = False"

text \<open>
  Modelled from the spec: \<^verbatim>\<open>get_metadata_from_URL\<close> is a method of the base tile provider,
  which is not part of the module. Section 4.2 of the specification gives its contract:
  given a metadata location it returns the parsed descriptor document, or fails with a
  connection error if the location is unreachable. For a file that is the case when
  the file does not exist: the fetch fails with a connection error, or the file is there.
\<close>

definition fetch_contract :: "env \<Rightarrow> string \<Rightarrow> bool" where
  "fetch_contract e path =
     (is_connection_error (get_metadata_from_URL e (FsPath path)) \<or> path_exists e path)"

subsection \<open>Concrete configurations\<close>

text \<open>
  A fresh model object with every field \<^verbatim>\<open>None\<close>, the descriptor document of testable
  property 5, and an environment for the host \<^verbatim>\<open>example.com\<close> with the layer \<^verbatim>\<open>roads\<close>
  and the one directory \<^verbatim>\<open>/srv/tiles\<close>, over a given HEAD answer and a given fetch. Its
  \<^verbatim>\<open>url_join\<close> removes the slashes at both ends of each part and puts one slash between
  the parts.
\<close>

definition strip_slashes :: "string \<Rightarrow> string" where
  "strip_slashes s =
     rev (dropWhile (\<lambda>c. c = CHR ''/'') (rev (dropWhile (\<lambda>c. c = CHR ''/'') s)))"

definition join_stripped :: "string \<Rightarrow> string \<Rightarrow> string" where
  "join_stripped a b = strip_slashes a @ ''/'' @ strip_slashes b"

definition blank_tilesjson :: MVTTilesJson where
  "blank_tilesjson =
     \<lparr>tj_name = JNone, tj_description = JNone, tj_attribution = JNone,
      tj_bounds = JNone, tj_center = JNone, tj_minzoom = JNone, tj_maxzoom = JNone,
      tj_tiles = JNone, tj_vector_layers = JNone\<rparr>"

definition roads_document :: dict where
  "roads_document =
     [(''minzoom'', JInt 0), (''maxzoom'', JInt 14),
      (''vector_layers'', JList [JDict [(''id'', JStr ''roads'')]])]"

definition example_env :: "(string \<Rightarrow> error + int) \<Rightarrow> (location \<Rightarrow> error + dict) \<Rightarrow> env" where
  "example_env head fetch =
     \<lparr>is_url = starts_with ''http'',
      urlparse = (\<lambda>s. \<lparr>scheme = ''https'', netloc = ''example.com''\<rparr>),
      url_join = join_stripped,
      get_layer = (\<lambda>self. ''roads''),
      requests_head = head,
      path_str = (\<lambda>s. s),
      path_exists = (\<lambda>s. s = ''/srv/tiles''),
      path_joinpath = (\<lambda>a b. a @ ''/'' @ b),
      path_name = (\<lambda>s. ''metadata''),
      get_metadata_from_URL = fetch,
      MVTTilesJson_new = blank_tilesjson\<rparr>"

definition url_self :: provider where
  "url_self =
     \<lparr>data = ''https://example.com/roads/{z}/{x}/{y}'',
      service_url = UrlStr [], service_metadata_url = UrlStr []\<rparr>"

definition local_self :: "string \<Rightarrow> provider" where
  "local_self path =
     \<lparr>data = path, service_url = UrlStr [], service_metadata_url = UrlStr []\<rparr>"

definition unreachable :: "location \<Rightarrow> error + dict" where
  "unreachable loc = Inl (ProviderConnectionError ''unreachable'')"

text \<open>
  The object the constructor returns for the host \<^verbatim>\<open>example.com\<close> and the layer \<^verbatim>\<open>roads\<close>,
  and a fetch that returns a given document.
\<close>

definition roads_provider :: provider where
  "roads_provider =
     \<lparr>data = ''https://example.com/roads/{z}/{x}/{y}'',
      service_url = UrlStr
        ''https://example.com/roads/tiles/{tileMatrixSetId}/{tileMatrix}/{tileRow}/{tileCol}?f=mvt'',
      service_metadata_url = UrlStr ''https://example.com//roads.json''\<rparr>"

definition fetched :: "dict \<Rightarrow> location \<Rightarrow> error + dict" where
  "fetched d loc = Inr d"


definition first_fetch_only :: "nat fetch" where
  "first_fetch_only s loc =
     (if snd s = 0 then Inr roads_document
      else Inl (ProviderConnectionError ''unreachable''),
      (fst s, Suc (snd s)))"

definition down_env :: env where
  "down_env = example_env (\<lambda>u. Inr 404) unreachable"

definition roads_env :: env where
  "roads_env = example_env (\<lambda>u. Inr 200) (fetched roads_document)"

section \<open>Properties\<close>

subsection \<open>Helper lemmas\<close>

lemma reshape_missing:
  "map_of d ''vector_layers'' = None \<Longrightarrow> reshape e d u = Inl (KeyError ''vector_layers'')"
  by (simp add: reshape_def Let_def)

lemma reshape_present:
  "map_of d ''vector_layers'' = Some vl \<Longrightarrow>
   reshape e d u = Inr
     \<lparr>tj_name = (case map_of d ''name'' of Some v \<Rightarrow> v
                   | None \<Rightarrow> tj_name (MVTTilesJson_new e)),
      tj_description = (case map_of d ''description'' of Some v \<Rightarrow> v
                   | None \<Rightarrow> tj_description (MVTTilesJson_new e)),
      tj_attribution = (case map_of d ''attribution'' of Some v \<Rightarrow> v
                   | None \<Rightarrow> tj_attribution (MVTTilesJson_new e)),
      tj_bounds = (case map_of d ''bounds'' of Some v \<Rightarrow> v
                   | None \<Rightarrow> tj_bounds (MVTTilesJson_new e)),
      tj_center = (case map_of d ''center'' of Some v \<Rightarrow> v
                   | None \<Rightarrow> tj_center (MVTTilesJson_new e)),
      tj_minzoom = (case map_of d ''minzoom'' of Some v \<Rightarrow> v
                   | None \<Rightarrow> tj_minzoom (MVTTilesJson_new e)),
      tj_maxzoom = (case map_of d ''maxzoom'' of Some v \<Rightarrow> v
                   | None \<Rightarrow> tj_maxzoom (MVTTilesJson_new e)),
      tj_tiles = JList [JStr u],
      tj_vector_layers = vl\<rparr>"
  by (cases "MVTTilesJson_new e") (simp add: reshape_def Let_def split: option.splits)

lemma vendor_unreachable:
  "is_connection_error (get_metadata_from_URL e (service_metadata_url self)) \<Longrightarrow>
   get_vendor_metadata e self dataset server_url layer tileset title descr keywords =
     ([(ERROR, ''No tiles metadata json available: '' @
                 location_str (service_metadata_url self))],
      Inl (ProviderConnectionError
        (''No tiles metadata json available: '' @
           location_str (service_metadata_url self))))"
  by (cases "get_metadata_from_URL e (service_metadata_url self)"
        rule: is_connection_error.cases)
     (simp_all add: get_vendor_metadata_def Let_def)








text \<open>
  What the URL branch of the constructor stores whenever the HEAD request returns a
  response, whatever its status: scheme and host, two slashes, the layer name, \<^verbatim>\<open>.json\<close>.
\<close>

lemma init_url_stores:
  assumes "is_url e (data self)"
    and "requests_head e (scheme (urlparse e (data self)) @ ''://'' @
           netloc (urlparse e (data self)) @ ''//'' @ get_layer e self @ ''.json'') = Inr s"
  shows "\<exists>p. snd (MVTPmtilesProvider_init e self) = Inr p \<and>
           service_metadata_url p =
             UrlStr (scheme (urlparse e (data self)) @ ''://'' @
               netloc (urlparse e (data self)) @ ''//'' @ get_layer e self @ ''.json'')"
  using assms by (simp add: MVTPmtilesProvider_init_def init_url_def Let_def)

subsection \<open>Construction\<close>

text \<open>
  Claim C1: for a URL-backed configuration the constructor succeeds although the HEAD
  request returns a status other than 200, and \<^verbatim>\<open>service_metadata_url\<close> is scheme and host,
  a single slash, the layer name and \<^verbatim>\<open>.json\<close>. Evaluated for
  \<^verbatim>\<open>https://example.com/roads/{z}/{x}/{y}\<close> with the layer \<^verbatim>\<open>roads\<close> and a HEAD answer of 404:
  the constructor succeeds and logs the missing document, and the location it stores is
  \<^verbatim>\<open>https://example.com//roads.json\<close>, with two slashes, which is not the string of the
  claim. The local variable \<^verbatim>\<open>layer\<close> already starts with a slash when the f-string
  \<^verbatim>\<open>{baseurl}/{layer}.json\<close> adds another.
\<close>

theorem metadata_url_double_slash:
  "MVTPmtilesProvider_init down_env url_self =
     ([(DEBUG, ''Extracting layer name from URL''), (DEBUG, ''Layer: /roads''),
       (ERROR, ''Service metadata does not exist: https://example.com//roads.json''),
       (WARNING, ''Service metadata does not exist: https://example.com//roads.json'')],
      Inr \<lparr>data = ''https://example.com/roads/{z}/{x}/{y}'',
           service_url = UrlStr
             ''https://example.com/roads/tiles/{tileMatrixSetId}/{tileMatrix}/{tileRow}/{tileCol}?f=mvt'',
           service_metadata_url = UrlStr ''https://example.com//roads.json''\<rparr>)
   \<and> UrlStr ''https://example.com//roads.json'' \<noteq>
       UrlStr (scheme (urlparse down_env (data url_self)) @ ''://'' @
               netloc (urlparse down_env (data url_self)) @ ''/'' @
               get_layer down_env url_self @ ''.json'')"
  by (simp add: MVTPmtilesProvider_init_def init_url_def Let_def down_env_def
        example_env_def
        join_stripped_def strip_slashes_def url_self_def)

text \<open>
  Claim C4: for a configuration whose data string is not a URL and whose path does not
  exist, the constructor raises a connection error whose message names the configured
  path; no object is returned.
\<close>

theorem init_missing_path_fails:
  assumes "\<not> is_url e (data self)"
    and "\<not> path_exists e (path_str e (data self))"
  shows "MVTPmtilesProvider_init e self =
           ([(ERROR, ''Service does not exist: '' @ data self)],
            Inl (ProviderConnectionError (''Service does not exist: '' @ data self)))"
  using assms
  by (simp add: MVTPmtilesProvider_init_def init_local_def Let_def)

theorem init_missing_path_fails_witness:
  "\<not> is_url down_env (data (local_self ''/srv/none''))
   \<and> \<not> path_exists down_env (path_str down_env (data (local_self ''/srv/none'')))
   \<and> MVTPmtilesProvider_init down_env (local_self ''/srv/none'') =
       ([(ERROR, ''Service does not exist: /srv/none'')],
        Inl (ProviderConnectionError ''Service does not exist: /srv/none''))"
  using init_missing_path_fails[of down_env "local_self ''/srv/none''"]
  by (simp add: down_env_def example_env_def
        join_stripped_def strip_slashes_def local_self_def)

text \<open>
  Claim C9: for a URL-backed configuration, an exception raised by the HEAD request
  itself propagates and aborts the constructor; the constructor returns an object exactly
  when the HEAD request returned a response, and the error-level entry about the missing
  metadata document is logged exactly when that response has a status other than 200.
\<close>

theorem head_exception_propagates:
  assumes "is_url e (data self)"
  shows "(requests_head e (scheme (urlparse e (data self)) @ ''://'' @ netloc (urlparse e (data self))
             @ ''/'' @ ''/'' @ get_layer e self @ ''.json'') = Inl ex
          \<longrightarrow> MVTPmtilesProvider_init e self =
               ([(DEBUG, ''Extracting layer name from URL''),
                 (DEBUG, ''Layer: '' @ ''/'' @ get_layer e self)], Inl ex))
     \<and> ((\<exists>p. snd (MVTPmtilesProvider_init e self) = Inr p) \<longleftrightarrow>
         (\<exists>s. requests_head e (scheme (urlparse e (data self)) @ ''://'' @ netloc (urlparse e (data self))
             @ ''/'' @ ''/'' @ get_layer e self @ ''.json'') = Inr s))
     \<and> ((ERROR, ''Service metadata does not exist: '' @ scheme (urlparse e (data self)) @ ''://''
             @ netloc (urlparse e (data self)) @ ''/'' @ ''/'' @ get_layer e self @ ''.json'')
           \<in> set (fst (MVTPmtilesProvider_init e self)) \<longleftrightarrow>
         (\<exists>s. requests_head e (scheme (urlparse e (data self)) @ ''://'' @ netloc (urlparse e (data self))
             @ ''/'' @ ''/'' @ get_layer e self @ ''.json'') = Inr s \<and> s \<noteq> 200))"
  using assms
  by (cases "requests_head e (scheme (urlparse e (data self)) @ ''://'' @ netloc (urlparse e (data self))
             @ ''/'' @ ''/'' @ get_layer e self @ ''.json'')")
     (simp_all add: MVTPmtilesProvider_init_def init_url_def Let_def)

theorem head_exception_propagates_witness:
  "is_url (example_env (\<lambda>u. Inl (OtherException ''ConnectionError'')) unreachable) (data url_self)
   \<and> requests_head (example_env (\<lambda>u. Inl (OtherException ''ConnectionError'')) unreachable)
        ''https://example.com//roads.json'' = Inl (OtherException ''ConnectionError'')
   \<and> MVTPmtilesProvider_init
        (example_env (\<lambda>u. Inl (OtherException ''ConnectionError'')) unreachable) url_self =
       ([(DEBUG, ''Extracting layer name from URL''), (DEBUG, ''Layer: /roads'')],
        Inl (OtherException ''ConnectionError''))"
  using head_exception_propagates[of
      "example_env (\<lambda>u. Inl (OtherException ''ConnectionError'')) unreachable" url_self
      "OtherException ''ConnectionError''"]
  by (simp add: example_env_def
        join_stripped_def strip_slashes_def url_self_def)

text \<open>
  Claim C5: for a local configuration whose directory exists and has no \<^verbatim>\<open>metadata\<close> file,
  the constructor succeeds, only logging the missing file at error and warning level, and
  stores the location of that file; a later vendor render, at any moment at which the
  file is still missing and the fetch keeps its contract, raises a connection error whose
  message carries that location.
\<close>

theorem missing_metadata_file_vendor_raises:
  assumes "\<not> is_url e (data self)"
    and "path_exists e (path_str e (data self))"
    and "\<not> path_exists e (path_joinpath e (path_str e (data self)) ''metadata'')"
    and "\<not> path_exists e' (path_joinpath e (path_str e (data self)) ''metadata'')"
    and "fetch_contract e' (path_joinpath e (path_str e (data self)) ''metadata'')"
  shows "\<exists>p. snd (MVTPmtilesProvider_init e self) = Inr p
     \<and> fst (MVTPmtilesProvider_init e self) =
         [(ERROR, ''Service metadata does not exist: '' @
                    path_name e (path_joinpath e (path_str e (data self)) ''metadata'')),
          (WARNING, ''Service metadata does not exist: '' @
                    path_name e (path_joinpath e (path_str e (data self)) ''metadata''))]
     \<and> service_metadata_url p = FsPath (path_joinpath e (path_str e (data self)) ''metadata'')
     \<and> get_vendor_metadata e' p dataset server_url layer tileset title descr keywords =
         ([(ERROR, ''No tiles metadata json available: '' @
                     path_joinpath e (path_str e (data self)) ''metadata'')],
          Inl (ProviderConnectionError (''No tiles metadata json available: '' @
                     path_joinpath e (path_str e (data self)) ''metadata'')))"
proof -
  let ?mp = "path_joinpath e (path_str e (data self)) ''metadata''"
  let ?p = "self\<lparr>service_url := FsPath (path_str e (data self)), service_metadata_url := FsPath ?mp\<rparr>"
  have ce: "is_connection_error (get_metadata_from_URL e' (service_metadata_url ?p))"
    using assms(4,5) by (simp add: fetch_contract_def)
  have "snd (MVTPmtilesProvider_init e self) = Inr ?p"
    using assms(1,2) by (simp add: MVTPmtilesProvider_init_def init_local_def Let_def)
  moreover have "fst (MVTPmtilesProvider_init e self) =
         [(ERROR, ''Service metadata does not exist: '' @ path_name e ?mp),
          (WARNING, ''Service metadata does not exist: '' @ path_name e ?mp)]"
    using assms(1,2,3) by (simp add: MVTPmtilesProvider_init_def init_local_def Let_def)
  moreover have "get_vendor_metadata e' ?p dataset server_url layer tileset title descr keywords =
         ([(ERROR, ''No tiles metadata json available: '' @ ?mp)],
          Inl (ProviderConnectionError (''No tiles metadata json available: '' @ ?mp)))"
    using vendor_unreachable[OF ce] by simp
  ultimately show ?thesis by simp
qed

theorem missing_metadata_file_vendor_raises_witness:
  "\<not> is_url down_env (data (local_self ''/srv/tiles''))
   \<and> path_exists down_env (path_str down_env (data (local_self ''/srv/tiles'')))
   \<and> \<not> path_exists down_env ''/srv/tiles/metadata''
   \<and> fetch_contract down_env ''/srv/tiles/metadata''
   \<and> (\<exists>p. snd (MVTPmtilesProvider_init down_env (local_self ''/srv/tiles'')) = Inr p
        \<and> service_metadata_url p = FsPath ''/srv/tiles/metadata''
        \<and> get_vendor_metadata down_env p ''lakes'' ''http://localhost:5000'' JNone
             ''WebMercatorQuad'' JNone JNone JNone =
            ([(ERROR, ''No tiles metadata json available: /srv/tiles/metadata'')],
             Inl (ProviderConnectionError
                    ''No tiles metadata json available: /srv/tiles/metadata'')))"
  using missing_metadata_file_vendor_raises[of down_env "local_self ''/srv/tiles''" down_env
      "''lakes''" "''http://localhost:5000''" JNone "''WebMercatorQuad''" JNone JNone JNone]
  by (auto simp add: down_env_def example_env_def
        join_stripped_def strip_slashes_def local_self_def fetch_contract_def
        unreachable_def)

subsection \<open>The HTML view\<close>

text \<open>
  Claim C2: the HTML render never raises a connection error, whatever the arguments and
  whatever the fetch gives; when the fetch fails with a connection error it returns the
  dictionary with exactly the keys \<^verbatim>\<open>id\<close>, \<^verbatim>\<open>title\<close>, \<^verbatim>\<open>tileset\<close>, \<^verbatim>\<open>collections_path\<close> and
  \<^verbatim>\<open>json_url\<close>, with no \<^verbatim>\<open>metadata\<close> and no \<^verbatim>\<open>tilejson_url\<close>.
\<close>

theorem html_swallows_connection_error:
  "get_html_metadata e self dataset server_url layer tileset title descr keywords
     \<noteq> Inl (ProviderConnectionError m)
   \<and> (get_metadata_from_URL e (service_metadata_url self) = Inl (ProviderConnectionError m')
      \<longrightarrow>
      (\<exists>md. get_html_metadata e self dataset server_url layer tileset title descr keywords
              = Inr md
         \<and> map fst md = [''id'', ''title'', ''tileset'', ''collections_path'', ''json_url'']
         \<and> map_of md ''metadata'' = None \<and> map_of md ''tilejson_url'' = None))"
  by (auto simp add: get_html_metadata_def Let_def split: sum.splits error.splits)

theorem html_swallows_connection_error_witness:
  "get_metadata_from_URL down_env (service_metadata_url roads_provider)
     = Inl (ProviderConnectionError ''unreachable'')
   \<and> get_html_metadata down_env roads_provider ''lakes'' ''http://localhost:5000'' JNone
        ''WebMercatorQuad'' (JStr ''Lakes'') JNone JNone =
       Inr [(''id'', JStr ''lakes''), (''title'', JStr ''Lakes''),
            (''tileset'', JStr ''WebMercatorQuad''),
            (''collections_path'', JStr
               ''http://localhost:5000/collections/lakes/tiles/WebMercatorQuad/{tileMatrix}/{tileRow}/{tileCol}?f=mvt''),
            (''json_url'', JStr
               ''http://localhost:5000/collections/lakes/tiles/WebMercatorQuad/metadata?f=json'')]"
  using html_swallows_connection_error[of down_env roads_provider "''lakes''"
      "''http://localhost:5000''" JNone "''WebMercatorQuad''" "JStr ''Lakes''" JNone JNone
      "''unreachable''" "''unreachable''"]
  by (simp add: down_env_def example_env_def
        join_stripped_def strip_slashes_def unreachable_def get_html_metadata_def Let_def)

text \<open>
  Claim C6: when the fetch returns the document with \<^verbatim>\<open>minzoom\<close> 0, \<^verbatim>\<open>maxzoom\<close> 14 and the
  one vector layer \<^verbatim>\<open>roads\<close>, the HTML render returns a dictionary whose \<^verbatim>\<open>metadata\<close> has
  these three values and every other optional field as in a fresh model object; and for
  every document with \<^verbatim>\<open>vector_layers\<close>, each optional field of \<^verbatim>\<open>metadata\<close> is the
  document's value when the document has the key and the fresh object's value otherwise.
\<close>

theorem html_copies_present_fields:
  assumes "get_metadata_from_URL e (service_metadata_url self) = Inr d"
  shows "(d = roads_document \<longrightarrow>
      (\<exists>md. get_html_metadata e self dataset server_url layer tileset title descr keywords = Inr md
         \<and> map_of md ''metadata'' = Some (JDict
             [(''name'', tj_name (MVTTilesJson_new e)),
              (''description'', tj_description (MVTTilesJson_new e)),
              (''attribution'', tj_attribution (MVTTilesJson_new e)),
              (''bounds'', tj_bounds (MVTTilesJson_new e)),
              (''center'', tj_center (MVTTilesJson_new e)),
              (''minzoom'', JInt 0),
              (''maxzoom'', JInt 14),
              (''tiles'', JList [JStr (url_join e server_url
                 (''collections/'' @ dataset @ ''/tiles/'' @ tileset @
                  ''/{tileMatrix}/{tileRow}/{tileCol}?f=mvt''))]),
              (''vector_layers'', JList [JDict [(''id'', JStr ''roads'')]])])))
   \<and> (\<forall>vl. map_of d ''vector_layers'' = Some vl \<longrightarrow>
      (\<exists>md. get_html_metadata e self dataset server_url layer tileset title descr keywords = Inr md
         \<and> map_of md ''metadata'' = Some (JDict
             [(''name'', case map_of d ''name'' of Some v \<Rightarrow> v
                          | None \<Rightarrow> tj_name (MVTTilesJson_new e)),
              (''description'', case map_of d ''description'' of Some v \<Rightarrow> v
                          | None \<Rightarrow> tj_description (MVTTilesJson_new e)),
              (''attribution'', case map_of d ''attribution'' of Some v \<Rightarrow> v
                          | None \<Rightarrow> tj_attribution (MVTTilesJson_new e)),
              (''bounds'', case map_of d ''bounds'' of Some v \<Rightarrow> v
                          | None \<Rightarrow> tj_bounds (MVTTilesJson_new e)),
              (''center'', case map_of d ''center'' of Some v \<Rightarrow> v
                          | None \<Rightarrow> tj_center (MVTTilesJson_new e)),
              (''minzoom'', case map_of d ''minzoom'' of Some v \<Rightarrow> v
                          | None \<Rightarrow> tj_minzoom (MVTTilesJson_new e)),
              (''maxzoom'', case map_of d ''maxzoom'' of Some v \<Rightarrow> v
                          | None \<Rightarrow> tj_maxzoom (MVTTilesJson_new e)),
              (''tiles'', JList [JStr (url_join e server_url
                 (''collections/'' @ dataset @ ''/tiles/'' @ tileset @
                  ''/{tileMatrix}/{tileRow}/{tileCol}?f=mvt''))]),
              (''vector_layers'', vl)])))"
proof (intro conjI impI allI)
  fix vl
  assume vl: "map_of d ''vector_layers'' = Some vl"
  show "\<exists>md. get_html_metadata e self dataset server_url layer tileset title descr keywords = Inr md
         \<and> map_of md ''metadata'' = Some (JDict
             [(''name'', case map_of d ''name'' of Some v \<Rightarrow> v
                          | None \<Rightarrow> tj_name (MVTTilesJson_new e)),
              (''description'', case map_of d ''description'' of Some v \<Rightarrow> v
                          | None \<Rightarrow> tj_description (MVTTilesJson_new e)),
              (''attribution'', case map_of d ''attribution'' of Some v \<Rightarrow> v
                          | None \<Rightarrow> tj_attribution (MVTTilesJson_new e)),
              (''bounds'', case map_of d ''bounds'' of Some v \<Rightarrow> v
                          | None \<Rightarrow> tj_bounds (MVTTilesJson_new e)),
              (''center'', case map_of d ''center'' of Some v \<Rightarrow> v
                          | None \<Rightarrow> tj_center (MVTTilesJson_new e)),
              (''minzoom'', case map_of d ''minzoom'' of Some v \<Rightarrow> v
                          | None \<Rightarrow> tj_minzoom (MVTTilesJson_new e)),
              (''maxzoom'', case map_of d ''maxzoom'' of Some v \<Rightarrow> v
                          | None \<Rightarrow> tj_maxzoom (MVTTilesJson_new e)),
              (''tiles'', JList [JStr (url_join e server_url
                 (''collections/'' @ dataset @ ''/tiles/'' @ tileset @
                  ''/{tileMatrix}/{tileRow}/{tileCol}?f=mvt''))]),
              (''vector_layers'', vl)])"
    using assms by (simp add: get_html_metadata_def Let_def reshape_present[OF vl] dict_of_def)
next
  assume doc: "d = roads_document"
  have vl: "map_of d ''vector_layers'' = Some (JList [JDict [(''id'', JStr ''roads'')]])"
    by (simp add: doc roads_document_def)
  show "\<exists>md. get_html_metadata e self dataset server_url layer tileset title descr keywords = Inr md
         \<and> map_of md ''metadata'' = Some (JDict
             [(''name'', tj_name (MVTTilesJson_new e)),
              (''description'', tj_description (MVTTilesJson_new e)),
              (''attribution'', tj_attribution (MVTTilesJson_new e)),
              (''bounds'', tj_bounds (MVTTilesJson_new e)),
              (''center'', tj_center (MVTTilesJson_new e)),
              (''minzoom'', JInt 0),
              (''maxzoom'', JInt 14),
              (''tiles'', JList [JStr (url_join e server_url
                 (''collections/'' @ dataset @ ''/tiles/'' @ tileset @
                  ''/{tileMatrix}/{tileRow}/{tileCol}?f=mvt''))]),
              (''vector_layers'', JList [JDict [(''id'', JStr ''roads'')]])])"
    using assms
    by (simp add: get_html_metadata_def Let_def reshape_present[OF vl] dict_of_def)
       (simp add: doc roads_document_def)
qed

theorem html_copies_present_fields_witness:
  "get_metadata_from_URL roads_env (service_metadata_url roads_provider) = Inr roads_document
   \<and> (\<exists>md. get_html_metadata roads_env roads_provider ''lakes'' ''http://localhost:5000'' JNone
              ''WebMercatorQuad'' (JStr ''Lakes'') JNone JNone = Inr md
         \<and> map_of md ''metadata'' = Some (JDict
             [(''name'', JNone), (''description'', JNone), (''attribution'', JNone),
              (''bounds'', JNone), (''center'', JNone),
              (''minzoom'', JInt 0), (''maxzoom'', JInt 14),
              (''tiles'', JList [JStr
                 ''http://localhost:5000/collections/lakes/tiles/WebMercatorQuad/{tileMatrix}/{tileRow}/{tileCol}?f=mvt'']),
              (''vector_layers'', JList [JDict [(''id'', JStr ''roads'')]])]))"
  using html_copies_present_fields[of roads_env roads_provider roads_document "''lakes''"
      "''http://localhost:5000''" JNone "''WebMercatorQuad''" "JStr ''Lakes''" JNone JNone]
  by (simp add: roads_env_def example_env_def
        join_stripped_def strip_slashes_def fetched_def blank_tilesjson_def)

subsection \<open>Both views\<close>

text \<open>
  Claim C3: when the fetch returns a document without the key \<^verbatim>\<open>vector_layers\<close>, both
  renders raise the lookup failure for that key: it is not turned into a connection
  error, and the HTML view does not swallow it.
\<close>

theorem missing_vector_layers_raises:
  assumes "get_metadata_from_URL e (service_metadata_url self) = Inr d"
    and "map_of d ''vector_layers'' = None"
  shows "get_html_metadata e self dataset server_url layer tileset title descr keywords
           = Inl (KeyError ''vector_layers'')
     \<and> get_vendor_metadata e self dataset server_url layer' tileset title' descr' keywords'
           = ([], Inl (KeyError ''vector_layers''))"
  using assms
  by (simp add: get_html_metadata_def get_vendor_metadata_def Let_def reshape_missing)

theorem missing_vector_layers_raises_witness:
  "get_metadata_from_URL (example_env (\<lambda>u. Inr 200) (fetched [(''name'', JStr ''roads'')]))
      (service_metadata_url roads_provider) = Inr [(''name'', JStr ''roads'')]
   \<and> map_of [(''name'', JStr ''roads'')] ''vector_layers'' = None
   \<and> get_html_metadata (example_env (\<lambda>u. Inr 200) (fetched [(''name'', JStr ''roads'')]))
        roads_provider ''lakes'' ''http://localhost:5000'' JNone ''WebMercatorQuad''
        (JStr ''Lakes'') JNone JNone = Inl (KeyError ''vector_layers'')
   \<and> get_vendor_metadata (example_env (\<lambda>u. Inr 200) (fetched [(''name'', JStr ''roads'')]))
        roads_provider ''lakes'' ''http://localhost:5000'' JNone ''WebMercatorQuad''
        JNone JNone JNone = ([], Inl (KeyError ''vector_layers''))"
  using missing_vector_layers_raises[of
      "example_env (\<lambda>u. Inr 200) (fetched [(''name'', JStr ''roads'')])" roads_provider
      "[(''name'', JStr ''roads'')]" "''lakes''" "''http://localhost:5000''" JNone
      "''WebMercatorQuad''" "JStr ''Lakes''" JNone JNone JNone JNone JNone JNone]
  by (simp add: example_env_def
        join_stripped_def strip_slashes_def fetched_def)

text \<open>
  Claim C10: the vendor render gives the same result for any two choices of \<^verbatim>\<open>layer\<close>,
  \<^verbatim>\<open>title\<close>, \<^verbatim>\<open>description\<close> and \<^verbatim>\<open>keywords\<close>, and the HTML render for any two choices of
  \<^verbatim>\<open>layer\<close>, \<^verbatim>\<open>description\<close> and \<^verbatim>\<open>keywords\<close>, the other arguments, the object and the
  environment being the same.
\<close>

theorem render_ignores_unused_arguments:
  "get_vendor_metadata e self dataset server_url layer1 tileset title1 descr1 keywords1
     = get_vendor_metadata e self dataset server_url layer2 tileset title2 descr2 keywords2
   \<and> get_html_metadata e self dataset server_url layer1 tileset title descr1 keywords1
     = get_html_metadata e self dataset server_url layer2 tileset title descr2 keywords2"
  by (simp add: get_html_metadata_def get_vendor_metadata_def)

subsection \<open>The vendor view\<close>

text \<open>
  Claim C7, as stated, fails: the fetch succeeds with the document that has only a
  \<^verbatim>\<open>name\<close>, and the vendor render raises the lookup failure instead of returning.
\<close>

theorem vendor_fetch_success_may_raise:
  "get_metadata_from_URL (example_env (\<lambda>u. Inr 200) (fetched [(''name'', JStr ''roads'')]))
      (service_metadata_url roads_provider) = Inr [(''name'', JStr ''roads'')]
   \<and> get_vendor_metadata (example_env (\<lambda>u. Inr 200) (fetched [(''name'', JStr ''roads'')]))
        roads_provider ''lakes'' ''http://localhost:5000'' JNone ''WebMercatorQuad'' JNone JNone JNone
      = ([], Inl (KeyError ''vector_layers''))"
  by (simp add: get_vendor_metadata_def Let_def example_env_def
        join_stripped_def strip_slashes_def fetched_def reshape_def)

text \<open>
  Claim C7, amended: when the fetch succeeds with a document that has the key
  \<^verbatim>\<open>vector_layers\<close>, the vendor render returns the reshaped descriptor alone, with none of
  the keys \<^verbatim>\<open>id\<close>, \<^verbatim>\<open>title\<close>, \<^verbatim>\<open>tileset\<close>, \<^verbatim>\<open>collections_path\<close>, \<^verbatim>\<open>json_url\<close>; its \<^verbatim>\<open>tiles\<close> is
  the one-element list of \<^verbatim>\<open>url_join\<close> applied to the server URL and
  \<^verbatim>\<open>collections/<dataset>/tiles/<tileset>/{z}/{x}/{y}?f=mvt\<close>, which is the server URL, a
  slash and that path whenever \<^verbatim>\<open>url_join\<close> joins the two with one slash.
\<close>

theorem vendor_returns_descriptor:
  assumes "get_metadata_from_URL e (service_metadata_url self) = Inr d"
    and "map_of d ''vector_layers'' = Some vl"
  shows "\<exists>r. get_vendor_metadata e self dataset server_url layer tileset title descr keywords
              = ([], Inr r)
     \<and> r = [(''name'', case map_of d ''name'' of Some v \<Rightarrow> v
                          | None \<Rightarrow> tj_name (MVTTilesJson_new e)),
              (''description'', case map_of d ''description'' of Some v \<Rightarrow> v
                          | None \<Rightarrow> tj_description (MVTTilesJson_new e)),
              (''attribution'', case map_of d ''attribution'' of Some v \<Rightarrow> v
                          | None \<Rightarrow> tj_attribution (MVTTilesJson_new e)),
              (''bounds'', case map_of d ''bounds'' of Some v \<Rightarrow> v
                          | None \<Rightarrow> tj_bounds (MVTTilesJson_new e)),
              (''center'', case map_of d ''center'' of Some v \<Rightarrow> v
                          | None \<Rightarrow> tj_center (MVTTilesJson_new e)),
              (''minzoom'', case map_of d ''minzoom'' of Some v \<Rightarrow> v
                          | None \<Rightarrow> tj_minzoom (MVTTilesJson_new e)),
              (''maxzoom'', case map_of d ''maxzoom'' of Some v \<Rightarrow> v
                          | None \<Rightarrow> tj_maxzoom (MVTTilesJson_new e)),
              (''tiles'', JList [JStr (url_join e server_url
                 (''collections/'' @ dataset @ ''/tiles/'' @ tileset @ ''/{z}/{x}/{y}?f=mvt''))]),
              (''vector_layers'', vl)]
     \<and> map_of r ''id'' = None \<and> map_of r ''title'' = None \<and> map_of r ''tileset'' = None
     \<and> map_of r ''collections_path'' = None \<and> map_of r ''json_url'' = None
     \<and> (url_join e server_url
            (''collections/'' @ dataset @ ''/tiles/'' @ tileset @ ''/{z}/{x}/{y}?f=mvt'')
          = server_url @ ''/'' @
            ''collections/'' @ dataset @ ''/tiles/'' @ tileset @ ''/{z}/{x}/{y}?f=mvt''
        \<longrightarrow> map_of r ''tiles'' = Some (JList [JStr (server_url @ ''/collections/'' @ dataset @
                 ''/tiles/'' @ tileset @ ''/{z}/{x}/{y}?f=mvt'')]))"
  using assms(1)
  by (simp add: get_vendor_metadata_def Let_def reshape_present[OF assms(2)] dict_of_def)

theorem vendor_returns_descriptor_witness:
  "get_metadata_from_URL roads_env (service_metadata_url roads_provider) = Inr roads_document
   \<and> map_of roads_document ''vector_layers'' = Some (JList [JDict [(''id'', JStr ''roads'')]])
   \<and> url_join roads_env ''http://localhost:5000''
        ''collections/lakes/tiles/WebMercatorQuad/{z}/{x}/{y}?f=mvt''
       = ''http://localhost:5000/collections/lakes/tiles/WebMercatorQuad/{z}/{x}/{y}?f=mvt''
   \<and> get_vendor_metadata roads_env roads_provider ''lakes'' ''http://localhost:5000'' JNone
        ''WebMercatorQuad'' JNone JNone JNone =
       ([], Inr [(''name'', JNone), (''description'', JNone), (''attribution'', JNone),
                 (''bounds'', JNone), (''center'', JNone),
                 (''minzoom'', JInt 0), (''maxzoom'', JInt 14),
                 (''tiles'', JList [JStr
                    ''http://localhost:5000/collections/lakes/tiles/WebMercatorQuad/{z}/{x}/{y}?f=mvt'']),
                 (''vector_layers'', JList [JDict [(''id'', JStr ''roads'')]])])"
  using vendor_returns_descriptor[of roads_env roads_provider roads_document
      "JList [JDict [(''id'', JStr ''roads'')]]" "''lakes''" "''http://localhost:5000''" JNone
      "''WebMercatorQuad''" JNone JNone JNone]
  by (simp add: roads_env_def example_env_def
        join_stripped_def strip_slashes_def fetched_def blank_tilesjson_def roads_document_def)

subsection \<open>Sequences of calls\<close>



text \<open>
  A success is not kept either: in the world whose first fetch returns the roads
  document and whose later fetches fail, the first vendor render returns the reshaped
  document and the second raises.
\<close>

lemma transient_success_is_not_kept:
  "run_calls first_fetch_only roads_env (roads_provider, 0)
     [VendorCall ''lakes'' ''http://localhost:5000'' JNone ''WebMercatorQuad''
        JNone JNone JNone,
      VendorCall ''lakes'' ''http://localhost:5000'' JNone ''WebMercatorQuad''
        JNone JNone JNone] =
     ([VendorOutcome
         ([], Inr [(''name'', JNone), (''description'', JNone), (''attribution'', JNone),
                   (''bounds'', JNone), (''center'', JNone),
                   (''minzoom'', JInt 0), (''maxzoom'', JInt 14),
                   (''tiles'', JList [JStr
                      ''http://localhost:5000/collections/lakes/tiles/WebMercatorQuad/{z}/{x}/{y}?f=mvt'']),
                   (''vector_layers'', JList [JDict [(''id'', JStr ''roads'')]])]),
       VendorOutcome
         ([(ERROR, ''No tiles metadata json available: https://example.com//roads.json'')],
          Inl (ProviderConnectionError
                 ''No tiles metadata json available: https://example.com//roads.json''))],
      (roads_provider, 2))"
  by (simp add: first_fetch_only_def roads_env_def example_env_def join_stripped_def
        strip_slashes_def roads_provider_def get_vendor_metadata_st_def Let_def
        reshape_def roads_document_def blank_tilesjson_def dict_of_def)

end
